theory Spec2Isabelle
  imports Complex_Main "HOL-Library.Word" "HOL-Library.Sublist"
begin

section \<open>Data model of \<open>src/A1/main.cpp\<close>\<close>

text \<open>
  The file drives PETSc: almost every statement of \<open>Solve_Linear_Systam\<close> is a library
  call whose \<open>PetscErrorCode\<close> the code either drops or hands to \<open>CHKERRQ\<close>.  The model
  keeps every such statement as one step on an explicit state: the step appends the call
  (with the code the library returned) to a trace and, when that code is 0, applies the
  call's effect on the handful of values the driver depends on (solver and preconditioner
  type, the contents of \<open>solution_vec\<close> and of the sequential vector \<open>x\<close>, the array
  handed to the local solve, the set of live library objects).  A call that fails changes
  nothing but the trace.  What the library answers (return codes, the solved vector, the
  stopping reason, the iteration count, the options database) is a parameter,
  \<open>petsc_env\<close>.
\<close>

type_synonym PetscErrorCode = int

text \<open>What is streamed into an \<open>ostream\<close> with \<open><<\<close>, item by item.\<close>

datatype out_item =
    Str string                    \<comment> \<open>a string literal\<close>
  | Snprintf string "int list"    \<comment> \<open>a buffer filled by \<open>snprintf\<close>: format and arguments\<close>
  | CurrentDateTime               \<comment> \<open>the string \<open>currentDateTime()\<close> returns at that moment\<close>
  | Num int                       \<comment> \<open>an integer value\<close>
  | Elapsed string string         \<comment> \<open>\<open>Elapsed a b\<close>: the double \<open>b - a\<close> of two \<open>MPI_Wtime\<close> readings\<close>
  | Endl                          \<comment> \<open>\<open>std::endl\<close>\<close>

datatype Vec = RHS_vec | solution_vec | exact_solution | Vec_x

datatype IS = IS_from | IS_to

datatype MatOption = MAT_ROW_ORIENTED | MAT_SPD

datatype PetscObject =
    global_mat | Obj_Vec Vec | TheSolver | Obj_IS IS | Obj_scatter

text \<open>PETSc's type names are strings (macros of the PETSc headers).\<close>

abbreviation MATMPIAIJ :: string where "MATMPIAIJ \<equiv> ''mpiaij''"
abbreviation KSPCG :: string where "KSPCG \<equiv> ''cg''"
abbreviation PCGAMG :: string where "PCGAMG \<equiv> ''gamg''"
abbreviation PCGAMGAGG :: string where "PCGAMGAGG \<equiv> ''agg''"

text \<open>
  The library calls of \<open>Solve_Linear_Systam\<close>, with the arguments that vary.  In
  \<open>KSPSetTolerances\<close> the value \<open>None\<close> stands for \<open>PETSC_DEFAULT\<close>.
\<close>

datatype petsc_call =
    MatCreate
  | MatSetType string
  | MatSetSizes nat nat nat nat
  | MatMPIAIJSetPreallocation "int list" "int list"
  | MatGetOwnershipRange
  | MatSetOption MatOption bool
  | VecCreateMPI nat nat
  | VecSetOption Vec
  | VecDuplicate Vec Vec
  | MatAssemblyBegin
  | MatAssemblyEnd
  | VecAssemblyBegin Vec
  | VecAssemblyEnd Vec
  | VecNorm Vec
  | KSPCreate
  | KSPSetTolerances "real option" "real option" "real option" "int option"
  | KSPSetOperators
  | KSPSetType string
  | KSPSetFromOptions
  | KSPGetPC
  | PCSetFromOptions
  | PCSetType string
  | PCGAMGSetType string
  | PCGAMGSetNSmooths int
  | KSPSolve
  | KSPGetIterationNumber
  | KSPGetConvergedReason
  | VecAXPY Vec int Vec
  | VecCreateSeq nat
  | ISCreateGeneral IS nat "int list"
  | VecScatterCreate
  | VecScatterBegin
  | VecScatterEnd
  | VecGetArray Vec
  | MatDestroy
  | VecDestroy Vec

datatype event =
    Petsc petsc_call PetscErrorCode        \<comment> \<open>a library call and the code it returned\<close>
  | MPI_Wtime string                       \<comment> \<open>a clock reading, stored in the named local\<close>
  | Execution_Time "out_item list"         \<comment> \<open>one statement writing to the \<open>Execution_Time\<close> stream\<close>
  | Cout "out_item list"                   \<comment> \<open>one statement writing to \<open>std::cout\<close>\<close>
  | Assemble_Globals
  | Calculate_Internal_Unknowns "real list option"
      \<comment> \<open>called with \<open>local_solution_vec_p\<close>; \<open>None\<close> is the pointer never set\<close>
  | Refine_Grid "32 word"                  \<comment> \<open>\<open>Refine_Grid(refinement)\<close>, an \<open>unsigned\<close>\<close>
  | Count_Globals

text \<open>
  The members of \<open>Diffusion<dim>\<close> that \<open>main.cpp\<close> reads.  The class declaration
  (\<open>diffusion.hpp\<close>) is not part of the sources, so the field types are taken from the
  way the fields are used.
\<close>

record Diffusion =
  comm_rank :: int
  comm_size :: int
  refn_cycle :: int
  num_global_DOFs_on_this_rank :: nat
  num_global_DOFs_on_all_ranks :: nat
  num_local_DOFs_on_this_rank :: nat
  n_local_DOFs_connected_to_DOF :: "int list"
  n_nonlocal_DOFs_connected_to_DOF :: "int list"
  scatter_from :: "int list"
  scatter_to :: "int list"

text \<open>What the library answers.\<close>

record petsc_env =
  rc :: "petsc_call \<Rightarrow> PetscErrorCode"   \<comment> \<open>the code each call returns\<close>
  option_ksp_type :: "string option"        \<comment> \<open>\<open>-ksp_type\<close> of the options database\<close>
  option_ksp_rtol :: "real option"          \<comment> \<open>\<open>-ksp_rtol\<close>\<close>
  option_pc_type :: "string option"         \<comment> \<open>\<open>-pc_type\<close>\<close>
  ksp_solution :: "real list"               \<comment> \<open>\<open>solution_vec\<close> after \<open>KSPSolve\<close>, global numbering\<close>
  ksp_reason :: int                         \<comment> \<open>the \<open>KSPConvergedReason\<close>\<close>
  ksp_iterations :: int

text \<open>
  The state.  \<open>trace\<close>, \<open>live\<close>, \<open>rhs_size\<close> and \<open>solution_vals\<close> outlive a call of
  \<open>Solve_Linear_Systam\<close> (the log, the library's objects, the members \<open>RHS_vec\<close> and
  \<open>solution_vec\<close>); the other fields stand for the locals of the function
  (\<open>TheSolver\<close>, \<open>ThePreCond\<close>, \<open>from\<close>, \<open>to\<close>, \<open>x\<close>, \<open>scatter\<close>,
  \<open>local_solution_vec_p\<close>), where \<open>None\<close> and \<open>False\<close> say that the local was never set.
  \<open>solved_with\<close> records the solver type, tolerance and preconditioner type a successful
  \<open>KSPSolve\<close> ran with.
\<close>

record solver_state =
  trace :: "event list"
  live :: "PetscObject set"
  rhs_size :: nat
  solution_vals :: "real list"
  TheSolver_ok :: bool
  ThePreCond_ok :: bool
  ksp_type :: "string option"
  ksp_rtol :: "real option"
  pc_type :: "string option"
  solved_with :: "(string option \<times> real option \<times> string option) option"
  is_from :: "int list option"
  is_to :: "int list option"
  x_vals :: "real list option"
  scatter :: "(int list \<times> int list) option"
  scatter_begun :: bool
  local_solution_vec_p :: "real list option"

section \<open>The library calls\<close>

definition from_option :: "'a option \<Rightarrow> 'a option \<Rightarrow> 'a option" where
  "from_option supplied current = (case supplied of Some v \<Rightarrow> Some v | None \<Rightarrow> current)"

definition index_ok :: "nat \<Rightarrow> int \<Rightarrow> bool" where
  "index_ok n i \<longleftrightarrow> 0 \<le> i \<and> i < int n"

text \<open>
  A forward scatter with \<open>INSERT_VALUES\<close>: \<open>dst[iy[k]] = src[ix[k]]\<close> for \<open>k = 0, 1, ...\<close>.
  The library rejects index sets of different lengths and an index outside its vector
  when the scatter is created; nothing is moved then.
\<close>

definition VecScatter :: "real list \<Rightarrow> int list \<Rightarrow> real list \<Rightarrow> int list \<Rightarrow> real list" where
  "VecScatter src ix dst iy =
     (if length ix = length iy \<and> list_all (index_ok (length src)) ix
         \<and> list_all (index_ok (length dst)) iy
      then fold (\<lambda>(i, j) y. y[nat j := src ! nat i]) (zip ix iy) dst
      else dst)"

fun creates :: "petsc_call \<Rightarrow> PetscObject set" where
  "creates MatCreate = {global_mat}"
| "creates (VecCreateMPI n N) = {Obj_Vec RHS_vec}"
| "creates (VecDuplicate v w) = {Obj_Vec w}"
| "creates KSPCreate = {TheSolver}"
| "creates (VecCreateSeq n) = {Obj_Vec Vec_x}"
| "creates (ISCreateGeneral i n idx) = {Obj_IS i}"
| "creates VecScatterCreate = {Obj_scatter}"
| "creates c = {}"

fun destroys :: "petsc_call \<Rightarrow> PetscObject set" where
  "destroys MatDestroy = {global_mat}"
| "destroys (VecDestroy v) = {Obj_Vec v}"
| "destroys c = {}"

text \<open>
  The effect of a successful call on the values the driver depends on.  A call on a local
  that was never set does nothing.  \<open>VecCreateMPI\<close> and \<open>VecDuplicate\<close> give a vector of
  zeros.  \<open>KSPSetFromOptions\<close> and \<open>PCSetFromOptions\<close> replace a setting by the value of
  the options database where one is supplied (\<open>KSPSetFromOptions\<close> also configures the
  solver's preconditioner); a \<open>SetType\<close> call replaces the type whatever it was.
  \<open>KSPSolve\<close> leaves \<open>ksp_solution\<close> in \<open>solution_vec\<close>.  The scatter moves the values
  when \<open>VecScatterEnd\<close> completes a scatter that was created and begun.
  \<open>VecGetArray\<close> sets \<open>local_solution_vec_p\<close> to the array of \<open>x\<close>.
\<close>

fun effect :: "petsc_env \<Rightarrow> petsc_call \<Rightarrow> solver_state \<Rightarrow> solver_state" where
  "effect env (VecCreateMPI n N) s = s\<lparr>rhs_size := N\<rparr>"
| "effect env (VecDuplicate v solution_vec) s = s\<lparr>solution_vals := replicate (rhs_size s) 0\<rparr>"
| "effect env KSPCreate s = s\<lparr>TheSolver_ok := True\<rparr>"
| "effect env (KSPSetTolerances rtol abstol dtol maxits) s =
     (if TheSolver_ok s then s\<lparr>ksp_rtol := from_option rtol (ksp_rtol s)\<rparr> else s)"
| "effect env (KSPSetType t) s =
     (if TheSolver_ok s then s\<lparr>ksp_type := Some t\<rparr> else s)"
| "effect env KSPSetFromOptions s =
     (if TheSolver_ok s
      then s\<lparr>ksp_type := from_option (option_ksp_type env) (ksp_type s),
             ksp_rtol := from_option (option_ksp_rtol env) (ksp_rtol s),
             pc_type := from_option (option_pc_type env) (pc_type s)\<rparr>
      else s)"
| "effect env KSPGetPC s =
     (if TheSolver_ok s then s\<lparr>ThePreCond_ok := True\<rparr> else s)"
| "effect env PCSetFromOptions s =
     (if ThePreCond_ok s
      then s\<lparr>pc_type := from_option (option_pc_type env) (pc_type s)\<rparr> else s)"
| "effect env (PCSetType t) s =
     (if ThePreCond_ok s then s\<lparr>pc_type := Some t\<rparr> else s)"
| "effect env KSPSolve s =
     (if TheSolver_ok s
      then s\<lparr>solved_with := Some (ksp_type s, ksp_rtol s, pc_type s),
             solution_vals := ksp_solution env\<rparr>
      else s)"
| "effect env (VecCreateSeq n) s = s\<lparr>x_vals := Some (replicate n 0)\<rparr>"
| "effect env (ISCreateGeneral IS_from n idx) s = s\<lparr>is_from := Some (take n idx)\<rparr>"
| "effect env (ISCreateGeneral IS_to n idx) s = s\<lparr>is_to := Some (take n idx)\<rparr>"
| "effect env VecScatterCreate s =
     (case (is_from s, is_to s, x_vals s) of
        (Some ix, Some iy, Some xv) \<Rightarrow> s\<lparr>scatter := Some (ix, iy)\<rparr>
      | _ \<Rightarrow> s)"
| "effect env VecScatterBegin s =
     (case scatter s of Some p \<Rightarrow> s\<lparr>scatter_begun := True\<rparr> | None \<Rightarrow> s)"
| "effect env VecScatterEnd s =
     (case (scatter s, x_vals s) of
        (Some (ix, iy), Some xv) \<Rightarrow>
          (if scatter_begun s
           then s\<lparr>x_vals := Some (VecScatter (solution_vals s) ix xv iy)\<rparr> else s)
      | _ \<Rightarrow> s)"
| "effect env (VecGetArray Vec_x) s = s\<lparr>local_solution_vec_p := x_vals s\<rparr>"
| "effect env c s = s"

text \<open>
  A library call: the call and its code go to the trace; the objects it creates and
  destroys and its effect count only when the code is 0.
\<close>

definition call :: "petsc_env \<Rightarrow> petsc_call \<Rightarrow> solver_state \<Rightarrow> solver_state" where
  "call env c s =
     (let logged = s\<lparr>trace := trace s @ [Petsc c (rc env c)]\<rparr>
      in if rc env c = 0
         then effect env c (logged\<lparr>live := (live s \<union> creates c) - destroys c\<rparr>)
         else logged)"

text \<open>
  The locals of \<open>Solve_Linear_Systam\<close> as they are declared: not initialised.
\<close>

definition declare_locals :: "solver_state \<Rightarrow> solver_state" where
  "declare_locals s =
     s\<lparr>TheSolver_ok := False, ThePreCond_ok := False,
       ksp_type := None, ksp_rtol := None, pc_type := None, solved_with := None,
       is_from := None, is_to := None, x_vals := None,
       scatter := None, scatter_begun := False, local_solution_vec_p := None\<rparr>"

definition emit :: "event \<Rightarrow> solver_state \<Rightarrow> solver_state" where
  "emit e s = s\<lparr>trace := trace s @ [e]\<rparr>"

text \<open>A statement under \<open>if (comm_rank == 0)\<close>.\<close>

definition if_rank0 :: "Diffusion \<Rightarrow> event \<Rightarrow> solver_state \<Rightarrow> solver_state" where
  "if_rank0 d e s = (if comm_rank d = 0 then emit e s else s)"

text \<open>Statements in sequence.\<close>

definition seq :: "('s \<Rightarrow> 's) list \<Rightarrow> 's \<Rightarrow> 's" where
  "seq steps s = fold (\<lambda>f. f) steps s"

section \<open>\<open>Diffusion<dim>::OutLogger\<close>\<close>

definition endl :: string where
  "endl = [CHR 0x0A]"

definition OutLogger :: "int \<Rightarrow> string \<Rightarrow> string \<Rightarrow> bool \<Rightarrow> string" where
  "OutLogger rank logger log_text insert_eol =
     (if rank = 0
      then (if insert_eol then logger @ log_text @ endl else logger @ log_text)
      else logger)"

section \<open>\<open>Diffusion<dim>::Solve_Linear_Systam\<close>\<close>

text \<open>Lines 95 to 121: the matrix and the three vectors.\<close>

definition create_global_system :: "petsc_env \<Rightarrow> Diffusion \<Rightarrow> solver_state \<Rightarrow> solver_state" where
  "create_global_system env d =
     seq [call env MatCreate,
          call env (MatSetType MATMPIAIJ),
          call env (MatSetSizes (num_global_DOFs_on_this_rank d) (num_global_DOFs_on_this_rank d)
                      (num_global_DOFs_on_all_ranks d) (num_global_DOFs_on_all_ranks d)),
          call env (MatMPIAIJSetPreallocation (n_local_DOFs_connected_to_DOF d)
                      (n_nonlocal_DOFs_connected_to_DOF d)),
          call env MatGetOwnershipRange,
          call env (MatSetOption MAT_ROW_ORIENTED False),
          call env (MatSetOption MAT_SPD True),
          call env (VecCreateMPI (num_global_DOFs_on_this_rank d) (num_global_DOFs_on_all_ranks d)),
          call env (VecSetOption RHS_vec),
          call env (VecDuplicate RHS_vec solution_vec),
          call env (VecDuplicate RHS_vec exact_solution)]"

text \<open>Lines 123 to 135: assembly of the element contributions.\<close>

definition assemble :: "petsc_env \<Rightarrow> Diffusion \<Rightarrow> solver_state \<Rightarrow> solver_state" where
  "assemble env d =
     seq [if_rank0 d (Execution_Time [Str ''Entering assembly : '', CurrentDateTime, Endl]),
          emit (MPI_Wtime ''t11''),
          emit Assemble_Globals,
          emit (MPI_Wtime ''t21''),
          if_rank0 d (Execution_Time [Str ''Has finished assembly : '', CurrentDateTime, Endl]),
          if_rank0 d (Execution_Time [Str ''Entering solver : '', CurrentDateTime, Endl]),
          emit (MPI_Wtime ''t12'')]"

text \<open>Lines 141 to 147.\<close>

definition finalize_vectors :: "petsc_env \<Rightarrow> solver_state \<Rightarrow> solver_state" where
  "finalize_vectors env =
     seq [call env (VecAssemblyBegin RHS_vec),
          call env (VecAssemblyEnd RHS_vec),
          call env (VecNorm RHS_vec),
          call env (VecAssemblyBegin exact_solution),
          call env (VecAssemblyEnd exact_solution)]"

text \<open>Lines 149 to 163: the Krylov solver and its preconditioner.\<close>

definition configure_solver :: "petsc_env \<Rightarrow> solver_state \<Rightarrow> solver_state" where
  "configure_solver env =
     seq [call env KSPCreate,
          call env (KSPSetTolerances (Some (1 / 10 ^ 8)) None None None),
          call env KSPSetOperators,
          call env (KSPSetType KSPCG),
          call env KSPSetFromOptions,
          call env KSPGetPC,
          call env PCSetFromOptions,
          call env (PCSetType PCGAMG),
          call env (PCGAMGSetType PCGAMGAGG),
          call env (PCGAMGSetNSmooths 1)]"

text \<open>Lines 165 to 181: the solve and what is logged about it.\<close>

definition run_solver :: "petsc_env \<Rightarrow> Diffusion \<Rightarrow> solver_state \<Rightarrow> solver_state" where
  "run_solver env d =
     seq [call env KSPSolve,
          call env KSPGetIterationNumber,
          call env KSPGetConvergedReason,
          if_rank0 d (Execution_Time [Str ''Converged reason is: '', Num (ksp_reason env), Endl]),
          if_rank0 d (Execution_Time [Str ''Number of iterations is: '', Num (ksp_iterations env), Endl]),
          call env (VecNorm solution_vec),
          if_rank0 d (Execution_Time [Str ''Finished solver : '', CurrentDateTime, Endl]),
          call env (VecAXPY exact_solution (- 1) solution_vec),
          call env (VecNorm exact_solution)]"

text \<open>Lines 183 to 204: the scatter of \<open>solution_vec\<close> into the sequential vector \<open>x\<close>.\<close>

definition scatter_solution :: "petsc_env \<Rightarrow> Diffusion \<Rightarrow> solver_state \<Rightarrow> solver_state" where
  "scatter_solution env d =
     seq [call env (VecCreateSeq (num_local_DOFs_on_this_rank d)),
          call env (ISCreateGeneral IS_from (num_local_DOFs_on_this_rank d) (scatter_from d)),
          call env (ISCreateGeneral IS_to (num_local_DOFs_on_this_rank d) (scatter_to d)),
          call env VecScatterCreate,
          call env VecScatterBegin,
          call env VecScatterEnd,
          call env (VecGetArray Vec_x),
          emit (MPI_Wtime ''t22'')]"

text \<open>Lines 212 to 221: the local post-solve, on \<open>local_solution_vec_p\<close>.\<close>

definition local_solve :: "Diffusion \<Rightarrow> solver_state \<Rightarrow> solver_state" where
  "local_solve d =
     seq [if_rank0 d (Execution_Time [Str ''Entering local solver : '', CurrentDateTime, Endl]),
          emit (MPI_Wtime ''t13''),
          (\<lambda>s. emit (Calculate_Internal_Unknowns (local_solution_vec_p s)) s),
          emit (MPI_Wtime ''t23''),
          if_rank0 d (Execution_Time [Str ''Finished local solver : '', CurrentDateTime, Endl]),
          if_rank0 d (Cout [Elapsed ''t11'' ''t21'', Str '' '', Elapsed ''t12'' ''t22'', Str '' '',
                            Elapsed ''t13'' ''t23'', Endl])]"

text \<open>Lines 223 to 227.\<close>

definition destroy_system :: "petsc_env \<Rightarrow> solver_state \<Rightarrow> solver_state" where
  "destroy_system env =
     seq [call env MatDestroy,
          call env (VecDestroy RHS_vec),
          call env (VecDestroy exact_solution),
          call env (VecDestroy solution_vec),
          call env (VecDestroy Vec_x)]"

text \<open>Lines 141 to 229, reached when neither \<open>CHKERRQ\<close> returned.\<close>

definition after_assembly :: "petsc_env \<Rightarrow> Diffusion \<Rightarrow> solver_state \<Rightarrow> solver_state" where
  "after_assembly env d =
     seq [finalize_vectors env,
          configure_solver env,
          run_solver env d,
          scatter_solution env d,
          local_solve d,
          destroy_system env]"

text \<open>
  The whole function.  \<open>CHKERRQ(assem_error)\<close> returns \<open>assem_error\<close> at once when it is
  not zero; every other return code is dropped.
\<close>

definition Solve_Linear_Systam ::
    "petsc_env \<Rightarrow> Diffusion \<Rightarrow> solver_state \<Rightarrow> PetscErrorCode \<times> solver_state" where
  "Solve_Linear_Systam env d s0 =
     (let s = assemble env d (create_global_system env d (declare_locals s0));
          assem_error = rc env MatAssemblyBegin;
          s = call env MatAssemblyBegin s
      in if assem_error \<noteq> 0 then (assem_error, s)
         else
           let assem_error = rc env MatAssemblyEnd;
               s = call env MatAssemblyEnd s
           in if assem_error \<noteq> 0 then (assem_error, s)
              else (0, after_assembly env d s))"

section \<open>\<open>Diffusion<dim>::Setup_System\<close>\<close>

text \<open>
  \<open>Refine_Grid\<close> and \<open>Count_Globals\<close> are members defined outside \<open>main.cpp\<close>; what they
  do to the object is a parameter.  Each \<open>snprintf\<close> fills the buffer from the members as
  they are at that statement, and each guard reads them as they are at the guard.
\<close>

record absent_members =
  Refine_Grid_effect :: "32 word \<Rightarrow> Diffusion \<Rightarrow> Diffusion"
  Count_Globals_effect :: "Diffusion \<Rightarrow> Diffusion"

definition Setup_System ::
    "absent_members \<Rightarrow> 32 word \<Rightarrow> Diffusion \<Rightarrow> event list \<times> Diffusion" where
  "Setup_System m refinement d0 =
     (let entering =
            (if comm_rank d0 = comm_size d0
             then [Cout [Snprintf ''Rank %5d is in cycle %5d and entering refinement: ''
                           [comm_rank d0, refn_cycle d0], CurrentDateTime, Endl]]
             else []);
          d1 = Refine_Grid_effect m refinement d0;
          exited =
            (if comm_rank d1 = comm_size d1
             then [Cout [Snprintf ''Rank %5d is in cycle %5d and has exited  refinement: ''
                           [comm_rank d1, refn_cycle d1], CurrentDateTime, Endl]]
             else []);
          entering_counter =
            (if comm_rank d1 = 0
             then [Execution_Time [Snprintf ''Rank %5d is in cycle %5d and is entering counter: ''
                                     [comm_rank d1, refn_cycle d1], CurrentDateTime, Endl]]
             else []);
          d2 = Count_Globals_effect m d1;
          exited_counter =
            (if comm_rank d2 = 0
             then [Execution_Time [Snprintf ''Rank %5d is in cycle %5d and has exited  counter: ''
                                     [comm_rank d2, refn_cycle d2], CurrentDateTime, Endl]]
             else [])
      in (entering @ [Refine_Grid refinement] @ exited @ entering_counter
            @ [Count_Globals] @ exited_counter, d2))"

section \<open>\<open>main\<close>\<close>

text \<open>
  What \<open>main\<close> does, call by call.  \<open>Call_Solve_Linear_Systam\<close> carries the value the
  call returned, which the statement \<open>diff0.Solve_Linear_Systam();\<close> discards.
\<close>

datatype main_event =
    SlepcInitialize
  | Stdout "out_item list"
  | Truncate_File string
  | Construct_Diffusion "32 word" int int int "32 word"
      \<comment> \<open>\<open>diff0(p1, PETSC_COMM_WORLD, size, rank, number_of_threads, Adaptive)\<close>\<close>
  | Call_Setup_System "32 word"
  | Call_Solve_Linear_Systam PetscErrorCode
  | Call_vtk_visualizer
  | Destruct_Diffusion                     \<comment> \<open>\<open>diff0\<close> leaves its scope\<close>
  | SlepcFinalize

text \<open>The entries of the options database that \<open>main\<close> asks for.\<close>

record cmdline =
  opt_p_0 :: "32 word option"
  opt_p_n :: "32 word option"
  opt_h_0 :: "32 word option"
  opt_h_n :: "32 word option"
  opt_amr :: "32 word option"
  opt_face_basis :: "string option"

text \<open>
  \<open>PetscOptionsGetInt\<close> stores the value when the option is there and leaves the variable
  alone otherwise; \<open>PetscOptionsGetString\<close> copies at most \<open>len - 1\<close> characters.
\<close>

definition PetscOptionsGetInt :: "32 word option \<Rightarrow> 32 word \<Rightarrow> 32 word \<times> bool" where
  "PetscOptionsGetInt supplied current =
     (case supplied of Some v \<Rightarrow> (v, True) | None \<Rightarrow> (current, False))"

definition PetscOptionsGetString :: "string option \<Rightarrow> string \<Rightarrow> nat \<Rightarrow> string \<times> bool" where
  "PetscOptionsGetString supplied current len =
     (case supplied of Some v \<Rightarrow> (take (len - 1) v, True) | None \<Rightarrow> (current, False))"

text \<open>Lines 375 to 395.\<close>

definition startup :: "int \<Rightarrow> main_event list" where
  "startup rank =
     (if rank = 0
      then [Stdout [Snprintf ([CHR 0x0A]
                      @ ''mpiexec -n 8 ./A1 -h_0 2 -h_n 12 -p_0 1 -p_n 2 -amr 1 ''
                      @ [CHR 0x0A]) [], Endl],
            Truncate_File ''Convergence_Result.txt'',
            Truncate_File ''Execution_Time.txt'']
      else [])"

text \<open>Lines 398 to 436: the face basis option.\<close>

definition face_basis_check :: "int \<Rightarrow> int \<Rightarrow> string option \<Rightarrow> main_event list" where
  "face_basis_check rank number_of_threads supplied =
     (let (face_basis_type, face_basis_option_flag) =
            PetscOptionsGetString supplied ''legendre'' 100
      in if face_basis_option_flag
         then (if face_basis_type = ''lagrange'' then []
               else if face_basis_type = ''legendre'' then []
               else (if rank = 0
                     then [Stdout [Str ('' HEY! : The face basis type should either be ''
                                        @ ''<nodal> or <modal> '' @ ''(default). '' @ [CHR 0x0A]), Endl],
                           Stdout [Snprintf (''There are %d threads available.'' @ [CHR 0x0A])
                                     [number_of_threads], Endl]]
                     else []))
         else [])"

text \<open>
  Lines 447 to 456.  The loop variables are \<open>unsigned\<close> (32 bits), initialised by a
  cast of the \<open>int\<close> bounds, which keeps the bits; \<open><\<close> on words compares the unsigned
  values.  \<open>++h1\<close> cannot wrap: it runs only while \<open>h1 < h_2\<close>.
\<close>

function h_loop ::
    "(32 word \<Rightarrow> 32 word \<Rightarrow> PetscErrorCode) \<Rightarrow> 32 word \<Rightarrow> 32 word \<Rightarrow> 32 word
       \<Rightarrow> main_event list" where
  "h_loop solve_returns p1 h1 h_2 =
     (if h1 < h_2
      then [Call_Setup_System h1, Call_Solve_Linear_Systam (solve_returns p1 h1),
            Call_vtk_visualizer] @ h_loop solve_returns p1 (h1 + 1) h_2
      else [])"
  by pat_completeness auto
termination
proof (relation "measure (\<lambda>(solve_returns, p1, h1, h_2). unat h_2 - unat h1)")
  show "wf (measure (\<lambda>(solve_returns :: 32 word \<Rightarrow> 32 word \<Rightarrow> PetscErrorCode,
                         p1 :: 32 word, h1 :: 32 word, h_2 :: 32 word). unat h_2 - unat h1))"
    by simp
next
  fix solve_returns :: "32 word \<Rightarrow> 32 word \<Rightarrow> PetscErrorCode" and p1 h1 h_2 :: "32 word"
  assume "h1 < h_2"
  then have less: "unat h1 < unat h_2" by (simp add: word_less_nat_alt)
  moreover have "unat h_2 < 2 ^ 32" using unsigned_less [of h_2] by simp
  ultimately have "unat h1 + unat (1 :: 32 word) < 2 ^ LENGTH(32)" by simp
  then have "unat (h1 + 1) = unat h1 + 1" by (simp add: unat_add_lem [THEN iffD1])
  with less
  show "((solve_returns, p1, h1 + 1, h_2), (solve_returns, p1, h1, h_2))
          \<in> measure (\<lambda>(solve_returns, p1, h1, h_2). unat h_2 - unat h1)"
    by simp
qed

function p_loop ::
    "(32 word \<Rightarrow> 32 word \<Rightarrow> PetscErrorCode) \<Rightarrow> int \<Rightarrow> int \<Rightarrow> int \<Rightarrow> 32 word
       \<Rightarrow> 32 word \<Rightarrow> 32 word \<Rightarrow> 32 word \<Rightarrow> 32 word \<Rightarrow> main_event list" where
  "p_loop solve_returns size' rank number_of_threads Adaptive h_1 h_2 p1 p_2 =
     (if p1 < p_2
      then [Construct_Diffusion p1 size' rank number_of_threads Adaptive]
             @ h_loop solve_returns p1 h_1 h_2
             @ [Destruct_Diffusion]
             @ p_loop solve_returns size' rank number_of_threads Adaptive h_1 h_2 (p1 + 1) p_2
      else [])"
  by pat_completeness auto
termination
proof (relation "measure (\<lambda>(solve_returns, size', rank, number_of_threads, Adaptive, h_1, h_2, p1, p_2).
                   unat p_2 - unat p1)")
  show "wf (measure (\<lambda>(solve_returns :: 32 word \<Rightarrow> 32 word \<Rightarrow> PetscErrorCode,
                         size' :: int, rank :: int, number_of_threads :: int, Adaptive :: 32 word,
                         h_1 :: 32 word, h_2 :: 32 word, p1 :: 32 word, p_2 :: 32 word).
                       unat p_2 - unat p1))"
    by simp
next
  fix solve_returns :: "32 word \<Rightarrow> 32 word \<Rightarrow> PetscErrorCode"
    and size' rank number_of_threads :: int and Adaptive h_1 h_2 p1 p_2 :: "32 word"
  assume "p1 < p_2"
  then have less: "unat p1 < unat p_2" by (simp add: word_less_nat_alt)
  moreover have "unat p_2 < 2 ^ 32" using unsigned_less [of p_2] by simp
  ultimately have "unat p1 + unat (1 :: 32 word) < 2 ^ LENGTH(32)" by simp
  then have "unat (p1 + 1) = unat p1 + 1" by (simp add: unat_add_lem [THEN iffD1])
  with less
  show "((solve_returns, size', rank, number_of_threads, Adaptive, h_1, h_2, p1 + 1, p_2),
         (solve_returns, size', rank, number_of_threads, Adaptive, h_1, h_2, p1, p_2))
          \<in> measure (\<lambda>(solve_returns, size', rank, number_of_threads, Adaptive, h_1, h_2, p1, p_2).
                   unat p_2 - unat p1)"
    by simp
qed

declare h_loop.simps [simp del] p_loop.simps [simp del]

text \<open>
  The locals \<open>p_1\<close>, \<open>p_2\<close>, \<open>h_1\<close>, \<open>h_2\<close> are not initialised; what they hold when the
  option is not given is a parameter.  \<open>found_options\<close> is computed and never read, so it
  is left out.
\<close>

record indeterminate =
  p_1_init :: "32 word"
  p_2_init :: "32 word"
  h_1_init :: "32 word"
  h_2_init :: "32 word"

definition main ::
    "cmdline \<Rightarrow> indeterminate \<Rightarrow> int \<Rightarrow> int \<Rightarrow> int
       \<Rightarrow> (32 word \<Rightarrow> 32 word \<Rightarrow> PetscErrorCode) \<Rightarrow> main_event list" where
  "main cl u rank size' number_of_threads solve_returns =
     (let p_1 = fst (PetscOptionsGetInt (opt_p_0 cl) (p_1_init u));
          p_2 = fst (PetscOptionsGetInt (opt_p_n cl) (p_2_init u));
          h_1 = fst (PetscOptionsGetInt (opt_h_0 cl) (h_1_init u));
          h_2 = fst (PetscOptionsGetInt (opt_h_n cl) (h_2_init u));
          Adaptive = fst (PetscOptionsGetInt (opt_amr cl) 0)
      in [SlepcInitialize]
           @ startup rank
           @ face_basis_check rank number_of_threads (opt_face_basis cl)
           @ p_loop solve_returns size' rank number_of_threads Adaptive h_1 h_2 p_1 p_2
           @ [SlepcFinalize])"

section \<open>Observations on a run, and sample inputs\<close>

text \<open>User-facing output: a write to the execution-time log or to the console.\<close>

fun is_report :: "event \<Rightarrow> bool" where
  "is_report (Execution_Time l) = True"
| "is_report (Cout l) = True"
| "is_report e = False"

text \<open>Console output only.\<close>

fun is_Cout :: "event \<Rightarrow> bool" where
  "is_Cout (Cout l) = True"
| "is_Cout e = False"

text \<open>The values an \<open>unsigned\<close> loop variable takes from \<open>a\<close> up to, not including, \<open>b\<close>.\<close>

definition word_range :: "32 word \<Rightarrow> 32 word \<Rightarrow> 32 word list" where
  "word_range a b = map word_of_nat [unat a..<unat b]"

text \<open>A face basis name was given and is neither of the two known ones.\<close>

definition unrecognised :: "string option \<Rightarrow> bool" where
  "unrecognised supplied =
     (case supplied of None \<Rightarrow> False | Some v \<Rightarrow> v \<noteq> ''legendre'' \<and> v \<noteq> ''lagrange'')"

text \<open>Ranks are numbered from 0 to one below the size of the communicator.\<close>

definition rank_numbered :: "Diffusion \<Rightarrow> bool" where
  "rank_numbered d \<longleftrightarrow> 0 \<le> comm_rank d \<and> comm_rank d < comm_size d"

text \<open>Every call of the list returns 0.\<close>

definition succeed :: "petsc_env \<Rightarrow> petsc_call list \<Rightarrow> bool" where
  "succeed env cs = list_all (\<lambda>c. rc env c = 0) cs"

text \<open>A run on rank 0 of 2, three local unknowns out of five global ones.\<close>

definition example_env :: petsc_env where
  "example_env =
     \<lparr>rc = (\<lambda>c. 0), option_ksp_type = None, option_ksp_rtol = None, option_pc_type = None,
      ksp_solution = [10, 11, 12, 13, 14], ksp_reason = 2, ksp_iterations = 7\<rparr>"

definition example_Diffusion :: Diffusion where
  "example_Diffusion =
     \<lparr>comm_rank = 0, comm_size = 2, refn_cycle = 0,
      num_global_DOFs_on_this_rank = 3, num_global_DOFs_on_all_ranks = 5,
      num_local_DOFs_on_this_rank = 3,
      n_local_DOFs_connected_to_DOF = [3, 3, 3], n_nonlocal_DOFs_connected_to_DOF = [2, 2, 2],
      scatter_from = [4, 0, 2], scatter_to = [2, 0, 1]\<rparr>"

definition initial_state :: solver_state where
  "initial_state =
     \<lparr>trace = [], live = {}, rhs_size = 0, solution_vals = [],
      TheSolver_ok = False, ThePreCond_ok = False,
      ksp_type = None, ksp_rtol = None, pc_type = None, solved_with = None,
      is_from = None, is_to = None, x_vals = None, scatter = None, scatter_begun = False,
      local_solution_vec_p = None\<rparr>"

text \<open>The same run on rank 1.\<close>

definition rank1_Diffusion :: Diffusion where
  "rank1_Diffusion = example_Diffusion\<lparr>comm_rank := 1\<rparr>"

text \<open>The run started with \<open>-ksp_type gmres -pc_type hypre\<close>.\<close>

definition hypre_env :: petsc_env where
  "hypre_env = example_env\<lparr>option_ksp_type := Some ''gmres'', option_pc_type := Some ''hypre''\<rparr>"


text \<open>\<open>KSPSolve\<close> fails with code 55 (\<open>PETSC_ERR_MEM\<close>); every other call succeeds.\<close>

definition failing_solve_env :: petsc_env where
  "failing_solve_env = example_env\<lparr>rc := (\<lambda>c. if c = KSPSolve then 55 else 0)\<rparr>"

text \<open>\<open>MatAssemblyBegin\<close> fails with code 55; every other call succeeds.\<close>

definition failing_assembly_env :: petsc_env where
  "failing_assembly_env = example_env\<lparr>rc := (\<lambda>c. if c = MatAssemblyBegin then 55 else 0)\<rparr>"

text \<open>The solver stops with \<open>KSP_DIVERGED_ITS\<close> (\<open>-3\<close>) after 10000 iterations.\<close>

definition diverged_env :: petsc_env where
  "diverged_env = example_env\<lparr>ksp_reason := - 3, ksp_iterations := 10000\<rparr>"

text \<open>A refinement that bumps the cycle counter and leaves rank and size alone.\<close>

definition example_members :: absent_members where
  "example_members =
     \<lparr>Refine_Grid_effect = (\<lambda>refinement d. d\<lparr>refn_cycle := refn_cycle d + 1\<rparr>),
      Count_Globals_effect = (\<lambda>d. d)\<rparr>"

text \<open>\<open>-p_0 1 -p_n 2 -h_0 0 -h_n 1 -amr 0 -face_basis nodal\<close>\<close>

definition example_cmdline :: cmdline where
  "example_cmdline =
     \<lparr>opt_p_0 = Some 1, opt_p_n = Some 2, opt_h_0 = Some 0, opt_h_n = Some 1,
      opt_amr = Some 0, opt_face_basis = Some ''nodal''\<rparr>"

definition example_indeterminate :: indeterminate where
  "example_indeterminate = \<lparr>p_1_init = 0, p_2_init = 0, h_1_init = 0, h_2_init = 0\<rparr>"

section \<open>Stepping through the driver\<close>

lemma seq_Nil: "seq [] s = s"
  by (simp add: seq_def)

lemma seq_Cons: "seq (f # fs) s = seq fs (f s)"
  by (simp add: seq_def)

lemma if_rank0_eq:
  "if_rank0 d e s = s\<lparr>trace := trace s @ (if comm_rank d = 0 then [e] else [])\<rparr>"
  by (simp add: if_rank0_def emit_def)

text \<open>A call with no effect of its own.\<close>

lemma call_inert:
  "\<forall>s. effect env c s = s \<Longrightarrow>
   call env c s =
     s\<lparr>trace := trace s @ [Petsc c (rc env c)],
       live := (live s \<union> (if rc env c = 0 then creates c else {}))
                 - (if rc env c = 0 then destroys c else {})\<rparr>"
  by (simp add: call_def Let_def)

text \<open>The calls with an effect, each as one update of the state.\<close>

lemma call_effectful:
  "call env (VecCreateMPI n N) s =
     s\<lparr>trace := trace s @ [Petsc (VecCreateMPI n N) (rc env (VecCreateMPI n N))],
       live := live s \<union> (if rc env (VecCreateMPI n N) = 0 then {Obj_Vec RHS_vec} else {}),
       rhs_size := (if rc env (VecCreateMPI n N) = 0 then N else rhs_size s)\<rparr>"
  "call env (VecDuplicate v solution_vec) s =
     s\<lparr>trace := trace s @ [Petsc (VecDuplicate v solution_vec) (rc env (VecDuplicate v solution_vec))],
       live := live s \<union> (if rc env (VecDuplicate v solution_vec) = 0
                           then {Obj_Vec solution_vec} else {}),
       solution_vals := (if rc env (VecDuplicate v solution_vec) = 0
                         then replicate (rhs_size s) 0 else solution_vals s)\<rparr>"
  "call env KSPCreate s =
     s\<lparr>trace := trace s @ [Petsc KSPCreate (rc env KSPCreate)],
       live := live s \<union> (if rc env KSPCreate = 0 then {TheSolver} else {}),
       TheSolver_ok := (rc env KSPCreate = 0 \<or> TheSolver_ok s)\<rparr>"
  "call env (KSPSetTolerances rtol abstol dtol maxits) s =
     s\<lparr>trace := trace s @ [Petsc (KSPSetTolerances rtol abstol dtol maxits)
                              (rc env (KSPSetTolerances rtol abstol dtol maxits))],
       ksp_rtol := (if rc env (KSPSetTolerances rtol abstol dtol maxits) = 0 \<and> TheSolver_ok s
                    then from_option rtol (ksp_rtol s) else ksp_rtol s)\<rparr>"
  "call env (KSPSetType t) s =
     s\<lparr>trace := trace s @ [Petsc (KSPSetType t) (rc env (KSPSetType t))],
       ksp_type := (if rc env (KSPSetType t) = 0 \<and> TheSolver_ok s then Some t else ksp_type s)\<rparr>"
  "call env KSPSetFromOptions s =
     s\<lparr>trace := trace s @ [Petsc KSPSetFromOptions (rc env KSPSetFromOptions)],
       ksp_type := (if rc env KSPSetFromOptions = 0 \<and> TheSolver_ok s
                    then from_option (option_ksp_type env) (ksp_type s) else ksp_type s),
       ksp_rtol := (if rc env KSPSetFromOptions = 0 \<and> TheSolver_ok s
                    then from_option (option_ksp_rtol env) (ksp_rtol s) else ksp_rtol s),
       pc_type := (if rc env KSPSetFromOptions = 0 \<and> TheSolver_ok s
                   then from_option (option_pc_type env) (pc_type s) else pc_type s)\<rparr>"
  "call env KSPGetPC s =
     s\<lparr>trace := trace s @ [Petsc KSPGetPC (rc env KSPGetPC)],
       ThePreCond_ok := (rc env KSPGetPC = 0 \<and> TheSolver_ok s \<or> ThePreCond_ok s)\<rparr>"
  "call env PCSetFromOptions s =
     s\<lparr>trace := trace s @ [Petsc PCSetFromOptions (rc env PCSetFromOptions)],
       pc_type := (if rc env PCSetFromOptions = 0 \<and> ThePreCond_ok s
                   then from_option (option_pc_type env) (pc_type s) else pc_type s)\<rparr>"
  "call env (PCSetType t) s =
     s\<lparr>trace := trace s @ [Petsc (PCSetType t) (rc env (PCSetType t))],
       pc_type := (if rc env (PCSetType t) = 0 \<and> ThePreCond_ok s then Some t else pc_type s)\<rparr>"
  "call env KSPSolve s =
     s\<lparr>trace := trace s @ [Petsc KSPSolve (rc env KSPSolve)],
       solved_with := (if rc env KSPSolve = 0 \<and> TheSolver_ok s
                       then Some (ksp_type s, ksp_rtol s, pc_type s) else solved_with s),
       solution_vals := (if rc env KSPSolve = 0 \<and> TheSolver_ok s
                         then ksp_solution env else solution_vals s)\<rparr>"
  "call env (VecCreateSeq n) s =
     s\<lparr>trace := trace s @ [Petsc (VecCreateSeq n) (rc env (VecCreateSeq n))],
       live := live s \<union> (if rc env (VecCreateSeq n) = 0 then {Obj_Vec Vec_x} else {}),
       x_vals := (if rc env (VecCreateSeq n) = 0 then Some (replicate n 0) else x_vals s)\<rparr>"
  "call env (ISCreateGeneral IS_from n idx) s =
     s\<lparr>trace := trace s @ [Petsc (ISCreateGeneral IS_from n idx) (rc env (ISCreateGeneral IS_from n idx))],
       live := live s \<union> (if rc env (ISCreateGeneral IS_from n idx) = 0
                           then {Obj_IS IS_from} else {}),
       is_from := (if rc env (ISCreateGeneral IS_from n idx) = 0
                   then Some (take n idx) else is_from s)\<rparr>"
  "call env (ISCreateGeneral IS_to n idx) s =
     s\<lparr>trace := trace s @ [Petsc (ISCreateGeneral IS_to n idx) (rc env (ISCreateGeneral IS_to n idx))],
       live := live s \<union> (if rc env (ISCreateGeneral IS_to n idx) = 0
                           then {Obj_IS IS_to} else {}),
       is_to := (if rc env (ISCreateGeneral IS_to n idx) = 0
                 then Some (take n idx) else is_to s)\<rparr>"
  "call env VecScatterCreate s =
     s\<lparr>trace := trace s @ [Petsc VecScatterCreate (rc env VecScatterCreate)],
       live := live s \<union> (if rc env VecScatterCreate = 0 then {Obj_scatter} else {}),
       scatter := (if rc env VecScatterCreate = 0
                   then (case (is_from s, is_to s, x_vals s) of
                           (Some ix, Some iy, Some xv) \<Rightarrow> Some (ix, iy)
                         | _ \<Rightarrow> scatter s)
                   else scatter s)\<rparr>"
  "call env VecScatterBegin s =
     s\<lparr>trace := trace s @ [Petsc VecScatterBegin (rc env VecScatterBegin)],
       scatter_begun := (rc env VecScatterBegin = 0 \<and> scatter s \<noteq> None \<or> scatter_begun s)\<rparr>"
  "call env VecScatterEnd s =
     s\<lparr>trace := trace s @ [Petsc VecScatterEnd (rc env VecScatterEnd)],
       x_vals := (if rc env VecScatterEnd = 0 \<and> scatter_begun s
                  then (case (scatter s, x_vals s) of
                          (Some (ix, iy), Some xv) \<Rightarrow> Some (VecScatter (solution_vals s) ix xv iy)
                        | _ \<Rightarrow> x_vals s)
                  else x_vals s)\<rparr>"
  "call env (VecGetArray Vec_x) s =
     s\<lparr>trace := trace s @ [Petsc (VecGetArray Vec_x) (rc env (VecGetArray Vec_x))],
       local_solution_vec_p := (if rc env (VecGetArray Vec_x) = 0
                                then x_vals s else local_solution_vec_p s)\<rparr>"
  by (auto simp add: call_def Let_def split: option.splits)

lemmas step_defs = call_effectful call_inert emit_def if_rank0_eq seq_Nil seq_Cons declare_locals_def

lemmas block_defs = create_global_system_def assemble_def finalize_vectors_def
  configure_solver_def run_solver_def scatter_solution_def local_solve_def destroy_system_def
  after_assembly_def

text \<open>What a call does to the trace, whatever else it does.\<close>

lemma trace_effect: "trace (effect env c s) = trace s"
  by (induction env c s rule: effect.induct) (simp_all split: option.splits prod.splits)

lemma trace_call: "trace (call env c s) = trace s @ [Petsc c (rc env c)]"
  by (simp add: call_def Let_def trace_effect)

text \<open>Only \<open>VecGetArray\<close> on \<open>x\<close> sets \<open>local_solution_vec_p\<close>.\<close>

lemma local_solution_vec_p_effect:
  "c \<noteq> VecGetArray Vec_x \<Longrightarrow> local_solution_vec_p (effect env c s) = local_solution_vec_p s"
  by (induction env c s rule: effect.induct) (simp_all split: option.splits prod.splits)

lemma local_solution_vec_p_call:
  "c \<noteq> VecGetArray Vec_x \<Longrightarrow> local_solution_vec_p (call env c s) = local_solution_vec_p s"
  by (simp add: call_def Let_def local_solution_vec_p_effect)

text \<open>No call reads the stopping reason or the iteration count.\<close>

lemma effect_reason:
  "effect (env\<lparr>ksp_reason := r, ksp_iterations := k\<rparr>) c s = effect env c s"
  by (induction env c s rule: effect.induct) simp_all

lemma call_reason:
  "call (env\<lparr>ksp_reason := r, ksp_iterations := k\<rparr>) c s = call env c s"
  by (simp add: call_def Let_def effect_reason)

text \<open>What is in the trace has no influence on a call.\<close>

lemma effect_trace_update:
  "effect env c (trace_update f s) = trace_update f (effect env c s)"
  by (induction env c s rule: effect.induct) (simp_all split: option.splits prod.splits)

lemma effect_logged:
  "effect env c (s\<lparr>trace := t, live := l\<rparr>) = (effect env c (s\<lparr>live := l\<rparr>))\<lparr>trace := t\<rparr>"
proof -
  have "s\<lparr>trace := t, live := l\<rparr> = (s\<lparr>live := l\<rparr>)\<lparr>trace := t\<rparr>" by simp
  then show ?thesis by (simp only: effect_trace_update)
qed

lemma call_trace_update:
  "call env c (s\<lparr>trace := t\<rparr>) = (call env c s)\<lparr>trace := t @ [Petsc c (rc env c)]\<rparr>"
  by (simp add: call_def Let_def effect_logged)

lemmas trace_defs = trace_call call_trace_update local_solution_vec_p_call call_reason emit_def
  if_rank0_eq seq_Nil seq_Cons declare_locals_def

lemma Solve_cases:
  "Solve_Linear_Systam env d s =
     (if rc env MatAssemblyBegin \<noteq> 0
      then (rc env MatAssemblyBegin,
            call env MatAssemblyBegin
              (assemble env d (create_global_system env d (declare_locals s))))
      else if rc env MatAssemblyEnd \<noteq> 0
      then (rc env MatAssemblyEnd,
            call env MatAssemblyEnd (call env MatAssemblyBegin
              (assemble env d (create_global_system env d (declare_locals s)))))
      else (0, after_assembly env d (call env MatAssemblyEnd (call env MatAssemblyBegin
              (assemble env d (create_global_system env d (declare_locals s)))))))"
  by (simp add: Solve_Linear_Systam_def Let_def)

lemma Solve_assembled:
  "rc env MatAssemblyBegin = 0 \<Longrightarrow> rc env MatAssemblyEnd = 0 \<Longrightarrow>
   Solve_Linear_Systam env d s =
     (0, after_assembly env d (call env MatAssemblyEnd (call env MatAssemblyBegin
           (assemble env d (create_global_system env d (declare_locals s))))))"
  by (simp add: Solve_cases)

subsection \<open>Facts about a whole invocation\<close>

text \<open>
  The array handed to the local solve when the solve and every call of the scatter
  succeed.
\<close>

lemma local_solution_vec_p_scattered:
  assumes "succeed env
             [MatAssemblyBegin, MatAssemblyEnd, KSPCreate, KSPSolve,
              VecCreateSeq (num_local_DOFs_on_this_rank d),
              ISCreateGeneral IS_from (num_local_DOFs_on_this_rank d) (scatter_from d),
              ISCreateGeneral IS_to (num_local_DOFs_on_this_rank d) (scatter_to d),
              VecScatterCreate, VecScatterBegin, VecScatterEnd, VecGetArray Vec_x]"
  shows "local_solution_vec_p (snd (Solve_Linear_Systam env d s)) =
           Some (VecScatter (ksp_solution env)
                   (take (num_local_DOFs_on_this_rank d) (scatter_from d))
                   (replicate (num_local_DOFs_on_this_rank d) 0)
                   (take (num_local_DOFs_on_this_rank d) (scatter_to d)))"
  using assms
  apply (simp add: succeed_def Solve_assembled)
  apply (simp add: block_defs step_defs split del: if_split cong del: if_weak_cong)
  done

lemma Calculate_in_trace:
  assumes "rc env MatAssemblyBegin = 0" and "rc env MatAssemblyEnd = 0"
  shows "Calculate_Internal_Unknowns (local_solution_vec_p (snd (Solve_Linear_Systam env d s)))
           \<in> set (trace (snd (Solve_Linear_Systam env d s)))"
  using assms
  apply (simp add: Solve_assembled)
  apply (simp add: block_defs trace_defs)
  done


text \<open>
  When the function returns through its last line and the clean-up calls succeed, none
  of the matrix and the three vectors is left alive.
\<close>

lemma global_system_destroyed:
  assumes "succeed env
             [MatAssemblyBegin, MatAssemblyEnd, MatDestroy, VecDestroy RHS_vec,
              VecDestroy exact_solution, VecDestroy solution_vec, VecDestroy Vec_x]"
  shows "live (snd (Solve_Linear_Systam env d s))
           \<inter> {global_mat, Obj_Vec RHS_vec, Obj_Vec solution_vec, Obj_Vec exact_solution} = {}"
  using assms
  apply (simp add: succeed_def Solve_assembled)
  apply (simp add: block_defs step_defs split del: if_split cong del: if_weak_cong)
  done

text \<open>A failed assembly call is returned at once: the call is the last event.\<close>

lemma assembly_failure_returned:
  assumes "rc env MatAssemblyBegin \<noteq> 0"
  shows "fst (Solve_Linear_Systam env d s) = rc env MatAssemblyBegin
         \<and> last (trace (snd (Solve_Linear_Systam env d s)))
             = Petsc MatAssemblyBegin (rc env MatAssemblyBegin)"
  using assms by (simp add: Solve_cases trace_defs)

subsection \<open>The scatter\<close>

lemma fold_scatter_length:
  "length (fold (\<lambda>(i, j) y. y[nat j := src ! nat i]) ps dst) = length dst"
  by (induction ps arbitrary: dst) auto

lemma fold_scatter_other:
  "0 \<le> j \<Longrightarrow> \<forall>p \<in> set ps. 0 \<le> snd p \<Longrightarrow> j \<notin> snd ` set ps \<Longrightarrow>
   fold (\<lambda>(i, j) y. y[nat j := src ! nat i]) ps dst ! nat j = dst ! nat j"
proof (induction ps arbitrary: dst)
  case Nil
  then show ?case by simp
next
  case (Cons p ps)
  obtain i k where p: "p = (i, k)" by (cases p)
  from Cons.prems p have "k \<noteq> j" "0 \<le> k" by auto
  with Cons.prems(1) have "nat k \<noteq> nat j" by simp
  with Cons p show ?case by simp
qed

lemma fold_scatter_hit:
  "distinct (map snd ps) \<Longrightarrow> \<forall>p \<in> set ps. index_ok (length dst) (snd p) \<Longrightarrow> (i, j) \<in> set ps \<Longrightarrow>
   fold (\<lambda>(i, j) y. y[nat j := src ! nat i]) ps dst ! nat j = src ! nat i"
proof (induction ps arbitrary: dst)
  case Nil
  then show ?case by simp
next
  case (Cons p ps)
  obtain i0 j0 where p: "p = (i0, j0)" by (cases p)
  show ?case
  proof (cases "(i, j) = p")
    case True
    with p have e: "i0 = i" "j0 = j" by auto
    from Cons.prems p e have nin: "j \<notin> snd ` set ps" by auto
    from Cons.prems p e have ok: "0 \<le> j" "nat j < length dst" by (auto simp: index_ok_def)
    from Cons.prems have nn: "\<forall>p \<in> set ps. 0 \<le> snd p" by (auto simp: index_ok_def)
    have "fold (\<lambda>(i, j) y. y[nat j := src ! nat i]) (p # ps) dst ! nat j
            = (dst[nat j := src ! nat i]) ! nat j"
      using fold_scatter_other [OF ok(1) nn nin] p e by simp
    with ok show ?thesis by simp
  next
    case False
    with Cons.prems have mem: "(i, j) \<in> set ps" by auto
    from Cons.prems have d: "distinct (map snd ps)" by simp
    from Cons.prems have r: "\<forall>q \<in> set ps. index_ok (length (dst[nat j0 := src ! nat i0])) (snd q)"
      by simp
    from Cons.IH [OF d r mem] p show ?thesis by simp
  qed
qed

lemma length_VecScatter: "length (VecScatter src ix dst iy) = length dst"
  by (simp add: VecScatter_def fold_scatter_length)

lemma VecScatter_nth:
  assumes len: "length ix = length iy"
    and src: "list_all (index_ok (length src)) ix"
    and dst: "list_all (index_ok (length dst)) iy"
    and dist: "distinct iy"
    and k: "k < length ix"
  shows "VecScatter src ix dst iy ! nat (iy ! k) = src ! nat (ix ! k)"
proof -
  from len k have mem: "(ix ! k, iy ! k) \<in> set (zip ix iy)"
    by (auto simp: set_zip)
  from len dist have d: "distinct (map snd (zip ix iy))" by simp
  from dst have r: "\<forall>p \<in> set (zip ix iy). index_ok (length dst) (snd p)"
    by (auto simp: list_all_iff dest: set_zip_rightD)
  from fold_scatter_hit [OF d r mem] len src dst show ?thesis
    by (simp add: VecScatter_def)
qed

subsection \<open>The loops of \<open>main\<close>\<close>

lemma unat_succ_less:
  fixes a b :: "32 word"
  assumes "a < b"
  shows "unat (a + 1) = Suc (unat a)"
proof -
  from assms have "unat a < unat b" by (simp add: word_less_nat_alt)
  moreover have "unat b < 2 ^ 32" using unsigned_less [of b] by simp
  ultimately have "unat a + unat (1 :: 32 word) < 2 ^ LENGTH(32)" by simp
  then show ?thesis by (simp add: unat_add_lem [THEN iffD1])
qed

lemma word_range_Cons: "a < b \<Longrightarrow> word_range a b = a # word_range (a + 1) b"
proof -
  assume less: "a < b"
  then have "unat a < unat b" by (simp add: word_less_nat_alt)
  then have "[unat a..<unat b] = unat a # [Suc (unat a)..<unat b]" by (rule upt_conv_Cons)
  with unat_succ_less [OF less] show ?thesis by (simp add: word_range_def)
qed

lemma word_range_Nil: "\<not> a < b \<Longrightarrow> word_range a b = []"
  by (simp add: word_range_def word_less_nat_alt)

lemma h_loop_levels:
  "h_loop solve_returns p1 h1 h_2 =
     concat (map (\<lambda>h. [Call_Setup_System h, Call_Solve_Linear_Systam (solve_returns p1 h),
                        Call_vtk_visualizer]) (word_range h1 h_2))"
proof (induction solve_returns p1 h1 h_2 rule: h_loop.induct)
  case (1 solve_returns p1 h1 h_2)
  show ?case
  proof (cases "h1 < h_2")
    case True
    with 1 show ?thesis
      by (subst h_loop.simps) (simp add: word_range_Cons)
  next
    case False
    then show ?thesis
      by (subst h_loop.simps) (simp add: word_range_Nil)
  qed
qed

lemma take_eq_short:
  assumes "length w < n"
  shows "take n v = w \<longleftrightarrow> v = w"
proof
  assume t: "take n v = w"
  then have "length (take n v) < n" using assms by simp
  then have "length v < n" by simp
  with t show "v = w" by simp
next
  assume "v = w"
  with assms show "take n v = w" by simp
qed

section \<open>The claims\<close>

text \<open>
  Claim C1.  When the assembly calls, the solve and every call of the scatter (lines 186
  to 203) succeed, the scatter fills a local array of \<open>num_local_DOFs_on_this_rank\<close>
  entries with \<open>local[scatter_to[i]] = solution_vec[scatter_from[i]]\<close> for every \<open>i\<close>
  below that number, and \<open>Calculate_Internal_Unknowns\<close> is called with that array.  The
  index pair is taken as the data model describes it: both sequences have that length,
  every index lies in its vector, and \<open>scatter_to\<close> names no position twice.
\<close>

theorem scatter_feeds_local_solve:
  assumes calls: "succeed env
             [MatAssemblyBegin, MatAssemblyEnd, KSPCreate, KSPSolve,
              VecCreateSeq (num_local_DOFs_on_this_rank d),
              ISCreateGeneral IS_from (num_local_DOFs_on_this_rank d) (scatter_from d),
              ISCreateGeneral IS_to (num_local_DOFs_on_this_rank d) (scatter_to d),
              VecScatterCreate, VecScatterBegin, VecScatterEnd, VecGetArray Vec_x]"
    and len_from: "length (scatter_from d) = num_local_DOFs_on_this_rank d"
    and len_to: "length (scatter_to d) = num_local_DOFs_on_this_rank d"
    and in_from: "list_all (index_ok (length (ksp_solution env))) (scatter_from d)"
    and in_to: "list_all (index_ok (num_local_DOFs_on_this_rank d)) (scatter_to d)"
    and one_to_one: "distinct (scatter_to d)"
  shows "\<exists>local_solution_vec.
           Calculate_Internal_Unknowns (Some local_solution_vec)
             \<in> set (trace (snd (Solve_Linear_Systam env d s)))
         \<and> local_solution_vec_p (snd (Solve_Linear_Systam env d s)) = Some local_solution_vec
         \<and> length local_solution_vec = num_local_DOFs_on_this_rank d
         \<and> (\<forall>i < num_local_DOFs_on_this_rank d.
               local_solution_vec ! nat (scatter_to d ! i)
                 = ksp_solution env ! nat (scatter_from d ! i))"
proof -
  let ?n = "num_local_DOFs_on_this_rank d"
  let ?x = "VecScatter (ksp_solution env) (scatter_from d) (replicate ?n 0) (scatter_to d)"
  from calls have asm: "rc env MatAssemblyBegin = 0" "rc env MatAssemblyEnd = 0"
    by (simp_all add: succeed_def)
  have p: "local_solution_vec_p (snd (Solve_Linear_Systam env d s)) = Some ?x"
    using local_solution_vec_p_scattered [OF calls, of s] len_from len_to by simp
  have "Calculate_Internal_Unknowns (Some ?x) \<in> set (trace (snd (Solve_Linear_Systam env d s)))"
    using Calculate_in_trace [OF asm, of d s] p by simp
  moreover have "length ?x = ?n" by (simp add: length_VecScatter)
  moreover have "?x ! nat (scatter_to d ! i) = ksp_solution env ! nat (scatter_from d ! i)"
    if "i < ?n" for i
    using VecScatter_nth [of "scatter_from d" "scatter_to d" "ksp_solution env" "replicate ?n 0" i]
      len_from len_to in_from in_to one_to_one that by simp
  ultimately show ?thesis using p by simp
qed

theorem scatter_feeds_local_solve_witness:
  "succeed example_env
     [MatAssemblyBegin, MatAssemblyEnd, KSPCreate, KSPSolve,
      VecCreateSeq (num_local_DOFs_on_this_rank example_Diffusion),
      ISCreateGeneral IS_from (num_local_DOFs_on_this_rank example_Diffusion)
        (scatter_from example_Diffusion),
      ISCreateGeneral IS_to (num_local_DOFs_on_this_rank example_Diffusion)
        (scatter_to example_Diffusion),
      VecScatterCreate, VecScatterBegin, VecScatterEnd, VecGetArray Vec_x]
   \<and> distinct (scatter_to example_Diffusion)
   \<and> local_solution_vec_p (snd (Solve_Linear_Systam example_env example_Diffusion initial_state))
       = Some [10, 12, 14]
   \<and> Calculate_Internal_Unknowns (Some [10, 12, 14])
        \<in> set (trace (snd (Solve_Linear_Systam example_env example_Diffusion initial_state)))"
proof -
  have a: "succeed example_env
     [MatAssemblyBegin, MatAssemblyEnd, KSPCreate, KSPSolve,
      VecCreateSeq (num_local_DOFs_on_this_rank example_Diffusion),
      ISCreateGeneral IS_from (num_local_DOFs_on_this_rank example_Diffusion)
        (scatter_from example_Diffusion),
      ISCreateGeneral IS_to (num_local_DOFs_on_this_rank example_Diffusion)
        (scatter_to example_Diffusion),
      VecScatterCreate, VecScatterBegin, VecScatterEnd, VecGetArray Vec_x]"
    by (simp add: succeed_def example_env_def)
  have c: "length (scatter_from example_Diffusion) = num_local_DOFs_on_this_rank example_Diffusion"
    and e: "length (scatter_to example_Diffusion) = num_local_DOFs_on_this_rank example_Diffusion"
    by (simp_all add: example_Diffusion_def)
  have f: "list_all (index_ok (length (ksp_solution example_env))) (scatter_from example_Diffusion)"
    by (simp add: example_Diffusion_def example_env_def index_ok_def)
  have g: "list_all (index_ok (num_local_DOFs_on_this_rank example_Diffusion))
             (scatter_to example_Diffusion)"
    by (simp add: example_Diffusion_def index_ok_def)
  have h: "distinct (scatter_to example_Diffusion)"
    by (simp add: example_Diffusion_def)
  from scatter_feeds_local_solve [OF a c e f g h, of initial_state]
  obtain v where v: "Calculate_Internal_Unknowns (Some v)
          \<in> set (trace (snd (Solve_Linear_Systam example_env example_Diffusion initial_state)))"
      "local_solution_vec_p (snd (Solve_Linear_Systam example_env example_Diffusion initial_state))
         = Some v"
      "length v = num_local_DOFs_on_this_rank example_Diffusion"
      "\<forall>i < num_local_DOFs_on_this_rank example_Diffusion.
           v ! nat (scatter_to example_Diffusion ! i)
           = ksp_solution example_env ! nat (scatter_from example_Diffusion ! i)"
    by blast
  from v(4) [rule_format, of 0] v(4) [rule_format, of 1] v(4) [rule_format, of 2]
  have "v ! 2 = 14" "v ! 0 = 10" "v ! 1 = 12"
    by (simp_all add: example_Diffusion_def example_env_def)
  moreover from v(3) have "length v = 3" by (simp add: example_Diffusion_def)
  ultimately have "v = [10, 12, 14]"
    by (auto simp add: list_eq_iff_nth_eq less_Suc_eq eval_nat_numeral)
  with v(1,2) a h show ?thesis by simp
qed

text \<open>
  Claim C2 asks that both the solver type and the preconditioner type follow the options
  database.  The solver type does (\<open>KSPSetFromOptions\<close> comes after \<open>KSPSetType\<close>), the
  preconditioner type does not: \<open>PCSetType(ThePreCond, PCGAMG)\<close> comes after
  \<open>PCSetFromOptions\<close>.  Started with \<open>-ksp_type gmres -pc_type hypre\<close>, the solve runs
  with GMRES and with GAMG.
\<close>

theorem pc_type_option_overwritten:
  "solved_with (snd (Solve_Linear_Systam hypre_env example_Diffusion initial_state))
     = Some (Some ''gmres'', Some (1 / 10 ^ 8), Some PCGAMG)"
  apply (simp add: Solve_cases hypre_env_def example_env_def)
  apply (simp add: block_defs step_defs from_option_def)
  done

text \<open>
  Claim C3 asks that every failure code of a library call aborts the run.  Only the two
  matrix assembly calls are checked.  When \<open>KSPSolve\<close> returns 55 the function goes on to
  the scatter, the local solve (on the zeros of the vector that was never solved for) and
  the clean-up, and returns 0; and \<open>main\<close> discards whatever \<open>Solve_Linear_Systam\<close>
  returns and calls the visualizer next.
\<close>

theorem failed_solve_is_ignored:
  "fst (Solve_Linear_Systam failing_solve_env example_Diffusion initial_state) = 0
   \<and> subseq [Petsc KSPSolve 55, Petsc VecScatterBegin 0, Petsc VecScatterEnd 0,
              Calculate_Internal_Unknowns (Some [0, 0, 0]), Petsc MatDestroy 0]
        (trace (snd (Solve_Linear_Systam failing_solve_env example_Diffusion initial_state)))
   \<and> h_loop (\<lambda>p h. 55) 1 0 1
        = [Call_Setup_System 0, Call_Solve_Linear_Systam 55, Call_vtk_visualizer]"
  apply (simp add: Solve_cases failing_solve_env_def example_env_def h_loop.simps)
  apply (simp add: block_defs step_defs initial_state_def example_Diffusion_def VecScatter_def
      index_ok_def eval_nat_numeral)
  done




text \<open>
  Claim C5.  Whatever stopping reason and iteration count the solver reports, the function
  fetches both, goes on to the scatter, the local solve and the clean-up, and returns 0; on
  rank 0 both values are written to the execution-time log before the scatter.  The
  sequence of calls, with the reporting left out, is the same for every reason and count.
\<close>

theorem nonconverged_solve_proceeds:
  assumes "rc env MatAssemblyBegin = 0" and "rc env MatAssemblyEnd = 0"
  shows "fst (Solve_Linear_Systam env d s) = 0
    \<and> subseq [Petsc KSPSolve (rc env KSPSolve),
               Petsc KSPGetIterationNumber (rc env KSPGetIterationNumber),
               Petsc KSPGetConvergedReason (rc env KSPGetConvergedReason),
               Petsc VecScatterBegin (rc env VecScatterBegin),
               Petsc VecScatterEnd (rc env VecScatterEnd),
               Calculate_Internal_Unknowns
                 (local_solution_vec_p (snd (Solve_Linear_Systam env d s))),
               Petsc MatDestroy (rc env MatDestroy)]
         (trace (snd (Solve_Linear_Systam env d s)))
    \<and> (comm_rank d = 0 \<longrightarrow>
         subseq [Petsc KSPGetConvergedReason (rc env KSPGetConvergedReason),
                 Execution_Time [Str ''Converged reason is: '', Num (ksp_reason env), Endl],
                 Execution_Time [Str ''Number of iterations is: '', Num (ksp_iterations env), Endl],
                 Petsc VecScatterBegin (rc env VecScatterBegin)]
           (trace (snd (Solve_Linear_Systam env d s))))
    \<and> (\<forall>r k. fst (Solve_Linear_Systam (env\<lparr>ksp_reason := r, ksp_iterations := k\<rparr>) d s) = 0
            \<and> filter (\<lambda>e. \<not> is_report e)
                 (trace (snd (Solve_Linear_Systam (env\<lparr>ksp_reason := r, ksp_iterations := k\<rparr>) d s)))
              = filter (\<lambda>e. \<not> is_report e) (trace (snd (Solve_Linear_Systam env d s))))"
proof (cases "comm_rank d = 0")
  case True
  with assms show ?thesis
    apply (simp add: Solve_assembled block_defs trace_defs)
    apply (intro conjI subseq_drop_many)
     apply simp
    apply simp
    done
next
  case False
  with assms show ?thesis
    apply (simp add: Solve_assembled block_defs trace_defs)
    apply (intro conjI subseq_drop_many)
    apply simp
    done
qed

theorem nonconverged_solve_proceeds_witness:
  "rc diverged_env MatAssemblyBegin = 0 \<and> rc diverged_env MatAssemblyEnd = 0
   \<and> comm_rank example_Diffusion = 0
   \<and> fst (Solve_Linear_Systam diverged_env example_Diffusion initial_state) = 0
   \<and> subseq [Petsc KSPGetConvergedReason 0,
              Execution_Time [Str ''Converged reason is: '', Num (- 3), Endl],
              Execution_Time [Str ''Number of iterations is: '', Num 10000, Endl],
              Petsc VecScatterBegin 0]
        (trace (snd (Solve_Linear_Systam diverged_env example_Diffusion initial_state)))"
proof -
  have a: "rc diverged_env MatAssemblyBegin = 0" and b: "rc diverged_env MatAssemblyEnd = 0"
    by (simp_all add: diverged_env_def example_env_def)
  have r: "rc diverged_env c = 0" for c
    by (simp add: diverged_env_def example_env_def)
  have k: "ksp_reason diverged_env = - 3" "ksp_iterations diverged_env = 10000"
    by (simp_all add: diverged_env_def)
  have z: "comm_rank example_Diffusion = 0"
    by (simp add: example_Diffusion_def)
  from nonconverged_solve_proceeds [OF a b, of example_Diffusion initial_state] a b z
  show ?thesis
    by (simp add: r k)
qed

text \<open>
  Claim C6 asks that the matrix and the three vectors are destroyed before every return.
  The return inside \<open>CHKERRQ\<close> skips lines 223 to 227: when \<open>MatAssemblyBegin\<close> fails, the
  function returns its code and all four objects stay alive.
\<close>

theorem early_return_leaks_system:
  "fst (Solve_Linear_Systam failing_assembly_env example_Diffusion initial_state) = 55
   \<and> live (snd (Solve_Linear_Systam failing_assembly_env example_Diffusion initial_state))
       = {global_mat, Obj_Vec RHS_vec, Obj_Vec solution_vec, Obj_Vec exact_solution}"
  apply (simp add: Solve_cases failing_assembly_env_def example_env_def)
  apply (simp add: block_defs step_defs initial_state_def)
  apply auto
  done

text \<open>
  Claim C7.  The outer loop runs the polynomial degrees from \<open>p_1\<close> up to, not including,
  \<open>p_2\<close>; for each it constructs one \<open>Diffusion\<close> object and runs the refinement levels
  from \<open>h_1\<close> up to, not including, \<open>h_2\<close>, calling \<open>Setup_System\<close>,
  \<open>Solve_Linear_Systam\<close> and \<open>vtk_visualizer\<close> in that order for each level.  The bounds
  are read as \<open>unsigned\<close>, as the casts in the loop headers say.
\<close>

theorem outer_loop_order:
  "p_loop solve_returns size' rank number_of_threads Adaptive h_1 h_2 p_1 p_2 =
     concat (map (\<lambda>p. [Construct_Diffusion p size' rank number_of_threads Adaptive]
                        @ concat (map (\<lambda>h. [Call_Setup_System h,
                                              Call_Solve_Linear_Systam (solve_returns p h),
                                              Call_vtk_visualizer])
                                    (word_range h_1 h_2))
                        @ [Destruct_Diffusion])
               (word_range p_1 p_2))"
proof (induction solve_returns size' rank number_of_threads Adaptive h_1 h_2 p_1 p_2
        rule: p_loop.induct)
  case (1 solve_returns size' rank number_of_threads Adaptive h_1 h_2 p1 p_2)
  show ?case
  proof (cases "p1 < p_2")
    case True
    with 1 show ?thesis
      by (subst p_loop.simps) (simp add: word_range_Cons h_loop_levels)
  next
    case False
    then show ?thesis
      by (subst p_loop.simps) (simp add: word_range_Nil)
  qed
qed

theorem outer_loop_order_witness:
  "p_loop (\<lambda>p h. 0) 2 0 1 0 0 2 1 3 =
     [Construct_Diffusion 1 2 0 1 0,
      Call_Setup_System 0, Call_Solve_Linear_Systam 0, Call_vtk_visualizer,
      Call_Setup_System 1, Call_Solve_Linear_Systam 0, Call_vtk_visualizer,
      Destruct_Diffusion,
      Construct_Diffusion 2 2 0 1 0,
      Call_Setup_System 0, Call_Solve_Linear_Systam 0, Call_vtk_visualizer,
      Call_Setup_System 1, Call_Solve_Linear_Systam 0, Call_vtk_visualizer,
      Destruct_Diffusion]"
proof -
  have "word_range 1 3 = [1, 2]" "word_range 0 2 = [0, 1]"
    by (simp_all add: word_range_def upt_conv_Cons)
  with outer_loop_order [of "\<lambda>p h. 0" 2 0 1 0 0 2 1 3] show ?thesis by simp
qed

text \<open>
  Claim C8.  On a rank other than 0, \<open>OutLogger\<close> leaves the stream as it was, and
  \<open>Solve_Linear_Systam\<close> writes nothing to the execution-time log or to the console:
  no milestone line, no converged-reason or iteration-count line, no timing line.
\<close>

theorem nonzero_rank_silent:
  assumes "comm_rank d \<noteq> 0"
  shows "OutLogger (comm_rank d) logger log_text insert_eol = logger
    \<and> filter is_report (trace (snd (Solve_Linear_Systam env d s))) = filter is_report (trace s)"
proof -
  have "filter is_report (trace (snd (Solve_Linear_Systam env d s))) = filter is_report (trace s)"
  proof (cases "rc env MatAssemblyBegin = 0")
    case False
    with assms show ?thesis
      by (simp add: Solve_cases block_defs trace_defs)
  next
    case ok: True
    show ?thesis
    proof (cases "rc env MatAssemblyEnd = 0")
      case False
      with assms ok show ?thesis
        by (simp add: Solve_cases block_defs trace_defs)
    next
      case True
      with assms ok show ?thesis
        by (simp add: Solve_cases block_defs trace_defs)
    qed
  qed
  with assms show ?thesis by (simp add: OutLogger_def)
qed

theorem nonzero_rank_silent_witness:
  "comm_rank rank1_Diffusion \<noteq> 0
   \<and> OutLogger (comm_rank rank1_Diffusion) ''so far'' ''Entering assembly'' True = ''so far''
   \<and> filter is_report
        (trace (snd (Solve_Linear_Systam example_env rank1_Diffusion initial_state))) = []"
proof -
  have r: "comm_rank rank1_Diffusion \<noteq> 0"
    by (simp add: rank1_Diffusion_def example_Diffusion_def)
  from nonzero_rank_silent [OF r, of "''so far''" "''Entering assembly''" True example_env initial_state]
    r show ?thesis
    by (simp add: initial_state_def)
qed

text \<open>
  Claim C9.  \<open>main\<close> prints the face basis complaint exactly when a face basis name is
  given, the name is neither \<open>legendre\<close> nor \<open>lagrange\<close>, and the rank is 0.  Whatever
  the name, the run goes on to the same loops and to \<open>SlepcFinalize\<close>: nothing after the
  check reads the name.
\<close>

theorem face_basis_report:
  "main cl u rank size' number_of_threads solve_returns =
     [SlepcInitialize] @ startup rank
       @ (if unrecognised (opt_face_basis cl) \<and> rank = 0
          then [Stdout [Str ('' HEY! : The face basis type should either be ''
                             @ ''<nodal> or <modal> '' @ ''(default). '' @ [CHR 0x0A]), Endl],
                Stdout [Snprintf (''There are %d threads available.'' @ [CHR 0x0A])
                          [number_of_threads], Endl]]
          else [])
       @ p_loop solve_returns size' rank number_of_threads
           (fst (PetscOptionsGetInt (opt_amr cl) 0))
           (fst (PetscOptionsGetInt (opt_h_0 cl) (h_1_init u)))
           (fst (PetscOptionsGetInt (opt_h_n cl) (h_2_init u)))
           (fst (PetscOptionsGetInt (opt_p_0 cl) (p_1_init u)))
           (fst (PetscOptionsGetInt (opt_p_n cl) (p_2_init u)))
       @ [SlepcFinalize]"
proof -
  have "face_basis_check rank number_of_threads (opt_face_basis cl) =
          (if unrecognised (opt_face_basis cl) \<and> rank = 0
           then [Stdout [Str ('' HEY! : The face basis type should either be ''
                             @ ''<nodal> or <modal> '' @ ''(default). '' @ [CHR 0x0A]), Endl],
                 Stdout [Snprintf (''There are %d threads available.'' @ [CHR 0x0A])
                           [number_of_threads], Endl]]
           else [])"
    by (cases "opt_face_basis cl")
       (simp_all add: face_basis_check_def PetscOptionsGetString_def unrecognised_def
          take_eq_short)
  then show ?thesis by (simp add: main_def Let_def)
qed

theorem face_basis_report_witness:
  "main example_cmdline example_indeterminate 1 2 1 (\<lambda>p h. 0) =
     [SlepcInitialize, Construct_Diffusion 1 2 1 1 0,
      Call_Setup_System 0, Call_Solve_Linear_Systam 0, Call_vtk_visualizer,
      Destruct_Diffusion, SlepcFinalize]
   \<and> main (example_cmdline\<lparr>opt_face_basis := Some ''lagrange''\<rparr>) example_indeterminate 1 2 1
        (\<lambda>p h. 0)
      = main example_cmdline example_indeterminate 1 2 1 (\<lambda>p h. 0)
   \<and> main example_cmdline example_indeterminate 0 2 1 (\<lambda>p h. 0) =
       [SlepcInitialize,
        Stdout [Snprintf ([CHR 0x0A]
                  @ ''mpiexec -n 8 ./A1 -h_0 2 -h_n 12 -p_0 1 -p_n 2 -amr 1 ''
                  @ [CHR 0x0A]) [], Endl],
        Truncate_File ''Convergence_Result.txt'',
        Truncate_File ''Execution_Time.txt'',
        Stdout [Str ('' HEY! : The face basis type should either be ''
                     @ ''<nodal> or <modal> '' @ ''(default). '' @ [CHR 0x0A]), Endl],
        Stdout [Snprintf (''There are %d threads available.'' @ [CHR 0x0A]) [1], Endl],
        Construct_Diffusion 1 2 0 1 0,
        Call_Setup_System 0, Call_Solve_Linear_Systam 0, Call_vtk_visualizer,
        Destruct_Diffusion, SlepcFinalize]"
  using face_basis_report [of example_cmdline example_indeterminate 1 2 1 "\<lambda>p h. 0"]
    face_basis_report [of "example_cmdline\<lparr>opt_face_basis := Some ''lagrange''\<rparr>"
      example_indeterminate 1 2 1 "\<lambda>p h. 0"]
    face_basis_report [of example_cmdline example_indeterminate 0 2 1 "\<lambda>p h. 0"]
  by (simp add: example_cmdline_def example_indeterminate_def startup_def unrecognised_def
        PetscOptionsGetInt_def p_loop.simps h_loop.simps)

text \<open>
  Claim C10.  The two refinement messages of \<open>Setup_System\<close> are guarded by
  \<open>comm_rank == comm_size\<close>.  With ranks numbered from 0 to one below the size, at both
  guards, neither message is printed: \<open>Setup_System\<close> writes nothing to the console.
\<close>

theorem refinement_messages_never_printed:
  assumes "rank_numbered d" and "rank_numbered (Refine_Grid_effect m refinement d)"
  shows "filter is_Cout (fst (Setup_System m refinement d)) = []"
  using assms by (simp add: Setup_System_def Let_def rank_numbered_def)

theorem refinement_messages_never_printed_witness:
  "rank_numbered example_Diffusion
   \<and> rank_numbered (Refine_Grid_effect example_members 3 example_Diffusion)
   \<and> filter is_Cout (fst (Setup_System example_members 3 example_Diffusion)) = []"
proof -
  have a: "rank_numbered example_Diffusion"
    by (simp add: rank_numbered_def example_Diffusion_def)
  have b: "rank_numbered (Refine_Grid_effect example_members 3 example_Diffusion)"
    by (simp add: rank_numbered_def example_Diffusion_def example_members_def)
  from refinement_messages_never_printed [OF a b] a b show ?thesis by simp
qed


end
